theory Spec2Isabelle
  imports Complex_Main
begin

section \<open>The fraud-scoring client (services/api)\<close>

text \<open>
  The module wraps three HTTP endpoints; its source follows the page component in
  \<^verbatim>\<open>src/pages/Home.tsx\<close>. Numbers of the source are JavaScript numbers;
  they are modelled as \<^typ>\<open>real\<close> (probabilities, amounts) and as \<^typ>\<open>int\<close>
  (millisecond timestamps) or \<^typ>\<open>nat\<close> (millisecond durations, loop counters).
  Everything the code takes from its surroundings is an explicit argument: the value of each
  \<^verbatim>\<open>Math.random()\<close> draw, each reading of \<^verbatim>\<open>Date.now()\<close>, and the outcome of
  each \<^verbatim>\<open>fetch\<close>. A thrown \<^verbatim>\<open>Error\<close> is the value \<open>Inl message\<close>.
\<close>

subsection \<open>Data model\<close>

record TransactionData =
  step :: real
  type :: string
  amount :: real
  oldbalanceOrg :: real
  newbalanceOrig :: real
  oldbalanceDest :: real
  newbalanceDest :: real

datatype RiskLevel = LOW | MEDIUM | HIGH | CRITICAL

record FraudResult =
  fraudProbability :: real
  flagged :: bool
  confidence :: real
  riskLevel :: RiskLevel
  explanation :: "string list"
  featureImportance :: "(string \<times> real) list"
  modelVersion :: string
  processingTime :: real

type_synonym js_error = string

text \<open>
  The parsed body of a scoring response, taken to be a JSON object. A key that the body
  does not have reads as \<open>None\<close> (\<^verbatim>\<open>undefined\<close> in the source); a key that is
  present carries a value of the type the endpoint documents.
\<close>

record ScoreBody =
  r_fraudProbability :: "real option"
  r_fraud_probability :: "real option"
  r_flagged :: "bool option"
  r_confidence :: "real option"
  r_modelVersion :: "string option"
  r_processingTime :: "real option"

text \<open>
  What \<^verbatim>\<open>fetch\<close> delivers: the promise rejects with an error, or it resolves with a
  response. \<open>json\<close> is what \<^verbatim>\<open>response.json()\<close> will give: the parsed body, or the
  error it throws on a body that does not parse.
\<close>

record 'b Response =
  status :: nat
  statusText :: string
  json :: "js_error + 'b"

datatype 'b FetchOutcome = Rejected js_error | Resolved "'b Response"

definition ok :: "'b Response \<Rightarrow> bool" where
  "ok r = (200 \<le> status r \<and> status r \<le> 299)"

subsection \<open>Strings\<close>

fun startsWith :: "string \<Rightarrow> string \<Rightarrow> bool" where
  "startsWith s [] = True"
| "startsWith [] (c # p) = False"
| "startsWith (x # s) (c # p) = (x = c \<and> startsWith s p)"

fun includes_str :: "string \<Rightarrow> string \<Rightarrow> bool" where
  "includes_str [] p = (p = [])"
| "includes_str (x # s) p = (startsWith (x # s) p \<or> includes_str s p)"

definition endsWith :: "string \<Rightarrow> string \<Rightarrow> bool" where
  "endsWith s p = startsWith (rev s) (rev p)"

definition digit :: "nat \<Rightarrow> char" where
  "digit d = ''0123456789'' ! d"

fun decimal :: "nat \<Rightarrow> string" where
  "decimal n = (if n < 10 then [digit n] else decimal (n div 10) @ [digit (n mod 10)])"

declare decimal.simps [simp del]

definition toString :: "int \<Rightarrow> string" where
  "toString k = (if k < 0 then CHR ''-'' # decimal (nat (- k)) else decimal (nat k))"

text \<open>The emoji that open the explanation strings, as their UTF-8 bytes.\<close>

definition emoji_warning :: string where
  "emoji_warning = [CHR 0xE2, CHR 0x9A, CHR 0xA0, CHR 0xEF, CHR 0xB8, CHR 0x8F]"

definition emoji_siren :: string where
  "emoji_siren = [CHR 0xF0, CHR 0x9F, CHR 0x9A, CHR 0xA8]"

definition emoji_money :: string where
  "emoji_money = [CHR 0xF0, CHR 0x9F, CHR 0x92, CHR 0xB0]"

definition emoji_cycle :: string where
  "emoji_cycle = [CHR 0xF0, CHR 0x9F, CHR 0x94, CHR 0x84]"

definition emoji_clock :: string where
  "emoji_clock = [CHR 0xF0, CHR 0x9F, CHR 0x95, CHR 0x90]"

definition emoji_check :: string where
  "emoji_check = [CHR 0xE2, CHR 0x9C, CHR 0x85]"

subsection \<open>Risk bands and explanations\<close>

definition getRiskLevel :: "real \<Rightarrow> RiskLevel" where
  "getRiskLevel probability =
     (if probability < 0.25 then LOW
      else if probability < 0.5 then MEDIUM
      else if probability < 0.8 then HIGH
      else CRITICAL)"

definition generateExplanation :: "TransactionData \<Rightarrow> real \<Rightarrow> string list" where
  "generateExplanation data probability =
     (let e0 = [];
          e1 = (if probability > 0.7
                then e0 @ [emoji_siren @ '' High fraud probability detected''] else e0);
          e2 = (if amount data > 10000
                then e1 @ [emoji_money @ '' Large transaction amount increases risk''] else e1);
          e3 = (if type data = ''CASH_OUT'' \<or> type data = ''TRANSFER''
                then e2 @ [emoji_cycle @ '' Transaction type commonly associated with fraud'']
                else e2);
          e4 = (if oldbalanceOrg data = 0 \<and> newbalanceOrig data = 0
                then e3 @ [emoji_warning @ '' Suspicious balance patterns detected''] else e3);
          e5 = (if step data > 500
                then e4 @ [emoji_clock @ '' Transaction occurred during high-risk time period'']
                else e4);
          e6 = (if length e5 = 0
                then e5 @ [emoji_check @ '' Transaction appears normal based on ML analysis'']
                else e5)
      in e6)"

text \<open>
  \<open>rnd k\<close> is the value of the \<open>k\<close>-th \<^verbatim>\<open>Math.random()\<close> draw of the current
  call; \<open>k0\<close> is the number of draws already made.
\<close>

definition generateFeatureImportance ::
  "(nat \<Rightarrow> real) \<Rightarrow> nat \<Rightarrow> TransactionData \<Rightarrow> (string \<times> real) list" where
  "generateFeatureImportance rnd k0 data =
     [(''amount'', rnd k0 * 0.3 + 0.2),
      (''type'', rnd (k0 + 1) * 0.25 + 0.15),
      (''oldbalanceOrg'', rnd (k0 + 2) * 0.2 + 0.1),
      (''newbalanceOrig'', rnd (k0 + 3) * 0.2 + 0.1),
      (''oldbalanceDest'', rnd (k0 + 4) * 0.15 + 0.05),
      (''newbalanceDest'', rnd (k0 + 5) * 0.15 + 0.05),
      (''step'', rnd (k0 + 6) * 0.1 + 0.05)]"

subsection \<open>Retry with exponential backoff\<close>

definition MIN_REQUEST_INTERVAL :: int where
  "MIN_REQUEST_INTERVAL = 2000"

text \<open>
  The test both \<^verbatim>\<open>retryWithBackoff\<close> and the \<^verbatim>\<open>catch\<close> of
  \<^verbatim>\<open>checkFraud\<close> apply to the message of a caught error.
\<close>

definition isRateLimit :: "js_error \<Rightarrow> bool" where
  "isRateLimit message =
     (includes_str message ''429'' \<or> includes_str message ''Too Many Requests'')"

text \<open>
  The loop of \<^verbatim>\<open>retryWithBackoff\<close>, from iteration \<open>i\<close> on. \<open>fn k\<close> is what the
  \<open>k\<close>-th invocation of the callback gives, counted from 0; the loop invokes it once per
  iteration. The result pairs the delays handed to \<^verbatim>\<open>setTimeout\<close>, in order, with
  the value returned (\<open>Inr\<close>) or the error thrown (\<open>Inl\<close>).
\<close>

function retryLoop ::
  "(nat \<Rightarrow> js_error + 'a) \<Rightarrow> nat \<Rightarrow> nat \<Rightarrow> nat \<Rightarrow> nat list \<times> (js_error + 'a)" where
  "retryLoop fn maxRetries baseDelay i =
     (if i < maxRetries then
        (case fn i of
           Inr v \<Rightarrow> ([], Inr v)
         | Inl error \<Rightarrow>
             if i = maxRetries - 1 then ([], Inl error)
             else
               (case retryLoop fn maxRetries baseDelay (i + 1) of
                  (delays, r) \<Rightarrow>
                    ((if isRateLimit error then baseDelay * 2 ^ (i + 1) else baseDelay * 2 ^ i)
                       # delays, r)))
      else ([], Inl ''Max retries exceeded''))"
  by pat_completeness auto
termination
  by (relation "measure (\<lambda>(fn, maxRetries, baseDelay, i). maxRetries - i)") auto

declare retryLoop.simps [simp del]

definition retryWithBackoff ::
  "(nat \<Rightarrow> js_error + 'a) \<Rightarrow> nat \<Rightarrow> nat \<Rightarrow> nat list \<times> (js_error + 'a)" where
  "retryWithBackoff fn maxRetries baseDelay = retryLoop fn maxRetries baseDelay 0"

subsection \<open>Scoring a transaction\<close>

text \<open>
  The module variable \<^verbatim>\<open>lastRequestTime\<close> and the clock that \<^verbatim>\<open>Date.now()\<close>
  reads, both in milliseconds.
\<close>

record World =
  clock :: int
  lastRequestTime :: int

definition initialWorld :: "int \<Rightarrow> World" where
  "initialWorld t0 = \<lparr>clock = t0, lastRequestTime = 0\<rparr>"

text \<open>
  What one call of \<^verbatim>\<open>checkFraud\<close> meets: the random draws, the outcome of each
  \<^verbatim>\<open>fetch\<close>, and the time that passes while the call is suspended. A timer never
  fires early: \<open>gate_lag\<close> and \<open>timer_lag k\<close> are the milliseconds by which the timer of
  the rate-limiting wait and the \<open>k\<close>-th backoff timer fire late (\<open>gate_lag\<close> is also the
  time between the two clock readings when there is no wait); \<open>fetch_ms k\<close> is how long
  the \<open>k\<close>-th request takes.
\<close>

record Env =
  rnd :: "nat \<Rightarrow> real"
  fetched :: "nat \<Rightarrow> ScoreBody FetchOutcome"
  gate_lag :: nat
  fetch_ms :: "nat \<Rightarrow> nat"
  timer_lag :: "nat \<Rightarrow> nat"

text \<open>The callback that \<^verbatim>\<open>checkFraud\<close> hands to \<^verbatim>\<open>retryWithBackoff\<close>.\<close>

definition scoreRequest :: "ScoreBody FetchOutcome \<Rightarrow> js_error + ScoreBody" where
  "scoreRequest outcome =
     (case outcome of
        Rejected error \<Rightarrow> Inl error
      | Resolved response \<Rightarrow>
          if status response = 429
          then Inl ''429 Too Many Requests - Rate limit exceeded''
          else if \<not> ok response
          then Inl (''API request failed: '' @ decimal (status response) @ '' ''
                      @ statusText response)
          else json response)"

text \<open>
  JavaScript's \<^verbatim>\<open>a || b\<close> on an optional number or string: \<open>a\<close> unless it is
  missing, zero or empty.
\<close>

definition orNumber :: "real option \<Rightarrow> real \<Rightarrow> real" where
  "orNumber a b = (case a of Some x \<Rightarrow> if x \<noteq> 0 then x else b | None \<Rightarrow> b)"

definition orString :: "string option \<Rightarrow> string \<Rightarrow> string" where
  "orString a b = (case a of Some x \<Rightarrow> if x \<noteq> [] then x else b | None \<Rightarrow> b)"

definition truthyNumber :: "real option \<Rightarrow> bool" where
  "truthyNumber a = (case a of Some x \<Rightarrow> x \<noteq> 0 | None \<Rightarrow> False)"

definition responseProbability :: "ScoreBody \<Rightarrow> real" where
  "responseProbability result =
     orNumber (r_fraudProbability result) (orNumber (r_fraud_probability result) 0)"

text \<open>The object built after a successful request.\<close>

definition enhance :: "(nat \<Rightarrow> real) \<Rightarrow> TransactionData \<Rightarrow> ScoreBody \<Rightarrow> FraudResult" where
  "enhance random transactionData result =
     (let k = (if truthyNumber (r_confidence result) then 0 else 1) in
      \<lparr>fraudProbability = responseProbability result,
       flagged = (r_flagged result = Some True \<or> responseProbability result > 0.5),
       confidence = orNumber (r_confidence result) (random 0 * 0.3 + 0.7),
       riskLevel = getRiskLevel (responseProbability result),
       explanation = generateExplanation transactionData (responseProbability result),
       featureImportance = generateFeatureImportance random k transactionData,
       modelVersion = orString (r_modelVersion result) ''v2.1.0'',
       processingTime = orNumber (r_processingTime result) (random (k + 7) * 200 + 50)\<rparr>)"

definition rateLimitWarning :: string where
  "rateLimitWarning =
     emoji_warning @ '' API rate limit exceeded - showing simulated analysis''"

text \<open>The object built in the \<^verbatim>\<open>catch\<close> when the error is a rate-limit error.\<close>

definition mockAnalysis :: "(nat \<Rightarrow> real) \<Rightarrow> TransactionData \<Rightarrow> FraudResult" where
  "mockAnalysis random transactionData =
     (let mockProbability = random 0 * 0.8 in
      \<lparr>fraudProbability = mockProbability,
       flagged = (mockProbability > 0.5),
       confidence = 0.85,
       riskLevel = getRiskLevel mockProbability,
       explanation =
         rateLimitWarning # drop 1 (generateExplanation transactionData mockProbability),
       featureImportance = generateFeatureImportance random 1 transactionData,
       modelVersion = ''v2.1.0-mock'',
       processingTime = random 8 * 100 + 25\<rparr>)"

text \<open>
  The requested wait of the rate-limiting step, given the clock reading and the last
  recorded request time: \<open>None\<close> when the call does not wait.
\<close>

definition waitTime :: "int \<Rightarrow> int \<Rightarrow> int option" where
  "waitTime now lastRequest =
     (let timeSinceLastRequest = now - lastRequest in
      if timeSinceLastRequest < MIN_REQUEST_INTERVAL
      then Some (MIN_REQUEST_INTERVAL - timeSinceLastRequest) else None)"

text \<open>
  The time a retry sequence takes: every attempt made, and after every attempt but the last
  the requested delay and the lateness of its timer.
\<close>

definition retryElapsed :: "Env \<Rightarrow> nat list \<Rightarrow> int" where
  "retryElapsed env delays =
     int (sum_list (map (\<lambda>k. fetch_ms env k + delays ! k + timer_lag env k)
                      [0..<length delays])
          + fetch_ms env (length delays))"

definition checkFraud ::
  "Env \<Rightarrow> World \<Rightarrow> TransactionData \<Rightarrow> World \<times> (js_error + FraudResult)" where
  "checkFraud env w transactionData =
     (let now = clock w;
          dispatched =
            (case waitTime now (lastRequestTime w) of
               Some wait \<Rightarrow> now + wait + int (gate_lag env)
             | None \<Rightarrow> now + int (gate_lag env));
          (delays, r) = retryWithBackoff (\<lambda>k. scoreRequest (fetched env k)) 3 1000;
          w' = \<lparr>clock = dispatched + retryElapsed env delays, lastRequestTime = dispatched\<rparr>
      in (w',
          case r of
            Inr result \<Rightarrow> Inr (enhance (rnd env) transactionData result)
          | Inl error \<Rightarrow>
              if isRateLimit error then Inr (mockAnalysis (rnd env) transactionData)
              else Inl error))"

text \<open>
  A caller that awaits each call before the next: \<open>idle\<close> milliseconds pass before a
  call, which then runs in its own environment. The result lists the request time each call
  records.
\<close>

fun dispatchTimes :: "World \<Rightarrow> (nat \<times> Env \<times> TransactionData) list \<Rightarrow> int list" where
  "dispatchTimes w [] = []"
| "dispatchTimes w ((idle, env, transactionData) # calls) =
     (let w' = fst (checkFraud env (w\<lparr>clock := clock w + int idle\<rparr>) transactionData)
      in lastRequestTime w' # dispatchTimes w' calls)"

text \<open>
  The times at which one call issues its requests. The first goes out at the time the call
  records; each later one follows the attempt before it, the requested delay and the
  lateness of that delay's timer.
\<close>

definition requestStarts :: "Env \<Rightarrow> World \<Rightarrow> TransactionData \<Rightarrow> int list" where
  "requestStarts env w transactionData =
     (let dispatched = lastRequestTime (fst (checkFraud env w transactionData));
          delays = fst (retryWithBackoff (\<lambda>k. scoreRequest (fetched env k)) 3 1000)
      in map (\<lambda>k. dispatched
                    + int (sum_list (map (\<lambda>j. fetch_ms env j + delays ! j + timer_lag env j)
                                       [0..<k])))
           [0..<Suc (length delays)])"

text \<open>The request times of a caller that awaits each call before the next, in order.\<close>

fun allRequestStarts :: "World \<Rightarrow> (nat \<times> Env \<times> TransactionData) list \<Rightarrow> int list" where
  "allRequestStarts w [] = []"
| "allRequestStarts w ((idle, env, transactionData) # calls) =
     (let w0 = w\<lparr>clock := clock w + int idle\<rparr>
      in requestStarts env w0 transactionData
           @ allRequestStarts (fst (checkFraud env w0 transactionData)) calls)"

subsection \<open>Model statistics and transaction history\<close>

text \<open>
  Both functions return the parsed body when the request succeeds and data made here
  otherwise. \<open>Remote\<close> marks the first, \<open>Local\<close> the second.
\<close>

datatype ('b, 'm) Served = Remote 'b | Local 'm

record ModelStats =
  accuracy :: real
  precision :: real
  recall :: real
  f1Score :: real
  totalTransactions :: nat
  fraudDetected :: nat
  falsePositives :: nat
  lastUpdated :: int

text \<open>
  \<open>lastUpdated\<close> is the instant that \<^verbatim>\<open>new Date().toISOString()\<close> prints, in
  milliseconds.
\<close>

definition fallbackStats :: "int \<Rightarrow> ModelStats" where
  "fallbackStats now =
     \<lparr>accuracy = 0.94, precision = 0.89, recall = 0.92, f1Score = 0.905,
      totalTransactions = 15847, fraudDetected = 1247, falsePositives = 89,
      lastUpdated = now\<rparr>"

text \<open>
  The \<^verbatim>\<open>try\<close> block shared by both functions: \<open>Inr (Some body)\<close> when it returns
  the body, \<open>Inr None\<close> when it ends without returning (the response is not ok),
  \<open>Inl error\<close> when \<^verbatim>\<open>fetch\<close> or \<^verbatim>\<open>response.json()\<close> throws.
\<close>

definition tryFetch :: "'b FetchOutcome \<Rightarrow> js_error + 'b option" where
  "tryFetch outcome =
     (case outcome of
        Rejected error \<Rightarrow> Inl error
      | Resolved response \<Rightarrow>
          if ok response
          then (case json response of Inl error \<Rightarrow> Inl error | Inr body \<Rightarrow> Inr (Some body))
          else Inr None)"

definition getModelStats ::
  "int \<Rightarrow> 'b FetchOutcome \<Rightarrow> js_error + ('b, ModelStats) Served" where
  "getModelStats now outcome =
     (case tryFetch outcome of
        Inr (Some body) \<Rightarrow> Inr (Remote body)
      | Inr None \<Rightarrow> Inr (Local (fallbackStats now))
      | Inl error \<Rightarrow> Inr (Local (fallbackStats now)))"

record Transaction =
  tx_id :: string
  tx_timestamp :: int
  tx_amount :: real
  tx_type :: "string option"
  tx_fraudProbability :: real
  tx_flagged :: bool
  tx_riskLevel :: RiskLevel

definition types :: "string list" where
  "types = [''TRANSFER'', ''CASH_OUT'', ''PAYMENT'', ''CASH_IN'', ''DEBIT'']"

text \<open>Reading an array at a computed index: \<open>None\<close> (\<^verbatim>\<open>undefined\<close>) out of range.\<close>

definition elementAt :: "'a list \<Rightarrow> int \<Rightarrow> 'a option" where
  "elementAt xs i = (if 0 \<le> i \<and> i < int (length xs) then Some (xs ! nat i) else None)"

text \<open>
  The instant that \<^verbatim>\<open>new Date(t)\<close> holds for a number \<open>t\<close>: the fraction is
  dropped, towards zero. Printing it with \<^verbatim>\<open>toISOString\<close> and reading it back with
  \<^verbatim>\<open>new Date(...).getTime()\<close> gives the same instant, so a timestamp is kept as its
  milliseconds.
\<close>

definition timeClip :: "real \<Rightarrow> int" where
  "timeClip t = (if t < 0 then \<lceil>t\<rceil> else \<lfloor>t\<rfloor>)"

definition WEEK_MS :: real where
  "WEEK_MS = 7 * 24 * 60 * 60 * 1000"

text \<open>
  The record pushed in iteration \<open>i\<close>. The iteration makes four random draws and reads
  the clock twice: \<open>random k\<close> and \<open>nowAt k\<close> are the \<open>k\<close>-th draw and the \<open>k\<close>-th
  reading of the whole call.
\<close>

definition mockTransaction :: "(nat \<Rightarrow> real) \<Rightarrow> (nat \<Rightarrow> int) \<Rightarrow> nat \<Rightarrow> Transaction" where
  "mockTransaction random nowAt i =
     (let fraudProb = random (4 * i) in
      \<lparr>tx_id = ''tx_'' @ toString (nowAt (2 * i)) @ ''_'' @ decimal i,
       tx_timestamp = timeClip (real_of_int (nowAt (2 * i + 1)) - random (4 * i + 1) * WEEK_MS),
       tx_amount = random (4 * i + 2) * 50000 + 100,
       tx_type = elementAt types \<lfloor>random (4 * i + 3) * real (length types)\<rfloor>,
       tx_fraudProbability = fraudProb,
       tx_flagged = (fraudProb > 0.5),
       tx_riskLevel = getRiskLevel fraudProb\<rparr>)"

function mockLoop ::
  "(nat \<Rightarrow> real) \<Rightarrow> (nat \<Rightarrow> int) \<Rightarrow> int \<Rightarrow> nat \<Rightarrow> Transaction list \<Rightarrow> Transaction list" where
  "mockLoop random nowAt limit i history =
     (if int i < limit
      then mockLoop random nowAt limit (i + 1) (history @ [mockTransaction random nowAt i])
      else history)"
  by pat_completeness auto
termination
  by (relation "measure (\<lambda>(random, nowAt, limit, i, history). nat (limit - int i))") auto

declare mockLoop.simps [simp del]

text \<open>
  \<^verbatim>\<open>history.sort((a, b) => time(b) - time(a))\<close>: the sort is stable and the comparator
  orders by descending timestamp.
\<close>

definition generateMockHistory ::
  "(nat \<Rightarrow> real) \<Rightarrow> (nat \<Rightarrow> int) \<Rightarrow> int \<Rightarrow> Transaction list" where
  "generateMockHistory random nowAt limit =
     sort_key (\<lambda>t. - tx_timestamp t) (mockLoop random nowAt limit 0 [])"

definition getTransactionHistory ::
  "(nat \<Rightarrow> real) \<Rightarrow> (nat \<Rightarrow> int) \<Rightarrow> 'b FetchOutcome \<Rightarrow> int
     \<Rightarrow> js_error + ('b, Transaction list) Served" where
  "getTransactionHistory random nowAt outcome limit =
     (case tryFetch outcome of
        Inr (Some body) \<Rightarrow> Inr (Remote body)
      | Inr None \<Rightarrow> Inr (Local (generateMockHistory random nowAt limit))
      | Inl error \<Rightarrow> Inr (Local (generateMockHistory random nowAt limit)))"

subsection \<open>The degraded path and example inputs\<close>

text \<open>
  \<^verbatim>\<open>checkFraud\<close> takes its rate-limit branch when the retry sequence ends in an error
  whose message passes the rate-limit test.
\<close>

definition degraded :: "Env \<Rightarrow> bool" where
  "degraded env =
     (case snd (retryWithBackoff (\<lambda>k. scoreRequest (fetched env k)) 3 1000) of
        Inl error \<Rightarrow> isRateLimit error
      | Inr result \<Rightarrow> False)"

definition exampleTransfer :: TransactionData where
  "exampleTransfer =
     \<lparr>step = 1, type = ''TRANSFER'', amount = 20000, oldbalanceOrg = 20000,
      newbalanceOrig = 0, oldbalanceDest = 0, newbalanceDest = 20000\<rparr>"

definition respondingWith :: "nat \<Rightarrow> string \<Rightarrow> (js_error + 'b) \<Rightarrow> 'b FetchOutcome" where
  "respondingWith code reason body =
     Resolved \<lparr>status = code, statusText = reason, json = body\<rparr>"

text \<open>
  An environment in which every request has the same outcome and takes 100 ms, every
  random draw is \<open>r\<close>, and no timer is late.
\<close>

definition steadyEnv :: "ScoreBody FetchOutcome \<Rightarrow> real \<Rightarrow> Env" where
  "steadyEnv outcome r =
     \<lparr>rnd = (\<lambda>k. r), fetched = (\<lambda>k. outcome), gate_lag = 0, fetch_ms = (\<lambda>k. 100),
      timer_lag = (\<lambda>k. 0)\<rparr>"

definition tooManyRequests :: "ScoreBody FetchOutcome" where
  "tooManyRequests =
     respondingWith 429 ''Too Many Requests'' (Inl ''Unexpected end of JSON input'')"

definition serverError :: "ScoreBody FetchOutcome" where
  "serverError =
     respondingWith 500 ''Internal Server Error'' (Inl ''Unexpected end of JSON input'')"

text \<open>
  A request is failed when \<^verbatim>\<open>fetch\<close> rejects, when the response is not ok, or
  when its body does not parse.
\<close>

definition fetchFails :: "'b FetchOutcome \<Rightarrow> bool" where
  "fetchFails outcome =
     (case outcome of
        Rejected error \<Rightarrow> True
      | Resolved response \<Rightarrow> \<not> ok response \<or> isl (json response))"

text \<open>
  A successful answer that carries \<^verbatim>\<open>flagged: false\<close> with a probability of 0.9.
\<close>

definition flaggedFalseBody :: ScoreBody where
  "flaggedFalseBody =
     \<lparr>r_fraudProbability = Some 0.9, r_fraud_probability = None, r_flagged = Some False,
      r_confidence = Some 0.99, r_modelVersion = Some ''v3'', r_processingTime = Some 12\<rparr>"

definition clearedButLikely :: "ScoreBody FetchOutcome" where
  "clearedButLikely = respondingWith 200 ''OK'' (Inr flaggedFalseBody)"

definition networkDown :: "string FetchOutcome" where
  "networkDown = Rejected ''Failed to fetch''"

definition unavailable :: "string FetchOutcome" where
  "unavailable = respondingWith 503 ''Service Unavailable'' (Inr ''{}'')"

definition exampleDraws :: "nat \<Rightarrow> real" where
  "exampleDraws k = (if k = 1 then 3 / 4 else 1 / 4)"

definition exampleClock :: "nat \<Rightarrow> int" where
  "exampleClock k = 1700000000000"

text \<open>A failure with status 500 whose status text reads like a rate limit.\<close>

definition mislabelledError :: "ScoreBody FetchOutcome" where
  "mislabelledError =
     respondingWith 500 ''Too Many Requests'' (Inl ''Unexpected end of JSON input'')"

text \<open>Two calls in a row, each answered with status 500 on all three attempts.\<close>

definition failingTwice :: "(nat \<times> Env \<times> TransactionData) list" where
  "failingTwice =
     [(0, steadyEnv serverError (1 / 2), exampleTransfer),
      (0, steadyEnv serverError (1 / 2), exampleTransfer)]"

section \<open>Properties\<close>

subsection \<open>Risk bands\<close>

text \<open>
  Claim C4. \<open>getRiskLevel\<close> is a step function onto the four levels: below 0.25 it is
  LOW, from 0.25 and below 0.5 MEDIUM, from 0.5 and below 0.8 HIGH, from 0.8 on CRITICAL;
  the boundaries 0.25, 0.5 and 0.8 belong to the upper band.
\<close>

theorem getRiskLevel_bands:
  "(p < 0.25 \<longrightarrow> getRiskLevel p = LOW)
   \<and> (0.25 \<le> p \<and> p < 0.5 \<longrightarrow> getRiskLevel p = MEDIUM)
   \<and> (0.5 \<le> p \<and> p < 0.8 \<longrightarrow> getRiskLevel p = HIGH)
   \<and> (0.8 \<le> p \<longrightarrow> getRiskLevel p = CRITICAL)
   \<and> getRiskLevel 0.25 = MEDIUM \<and> getRiskLevel 0.5 = HIGH \<and> getRiskLevel 0.8 = CRITICAL
   \<and> range getRiskLevel = {LOW, MEDIUM, HIGH, CRITICAL}"
proof -
  have "LOW \<in> range getRiskLevel"
    by (rule range_eqI [of _ _ 0]) (simp add: getRiskLevel_def)
  moreover have "MEDIUM \<in> range getRiskLevel"
    by (rule range_eqI [of _ _ "0.25"]) (simp add: getRiskLevel_def)
  moreover have "HIGH \<in> range getRiskLevel"
    by (rule range_eqI [of _ _ "0.5"]) (simp add: getRiskLevel_def)
  moreover have "CRITICAL \<in> range getRiskLevel"
    by (rule range_eqI [of _ _ "0.8"]) (simp add: getRiskLevel_def)
  moreover have "range getRiskLevel \<subseteq> {LOW, MEDIUM, HIGH, CRITICAL}"
    by (auto simp: getRiskLevel_def)
  ultimately have "range getRiskLevel = {LOW, MEDIUM, HIGH, CRITICAL}"
    by blast
  then show ?thesis
    by (simp add: getRiskLevel_def)
qed

theorem getRiskLevel_bands_witness:
  "getRiskLevel 0.1 = LOW \<and> getRiskLevel 0.3 = MEDIUM \<and> getRiskLevel 0.6 = HIGH
   \<and> getRiskLevel 0.95 = CRITICAL"
  using getRiskLevel_bands [of "0.1"] getRiskLevel_bands [of "0.3"]
    getRiskLevel_bands [of "0.6"] getRiskLevel_bands [of "0.95"]
  by simp

subsection \<open>The retry loop, one iteration at a time\<close>

lemma retryLoop_returns:
  "i < maxRetries \<Longrightarrow> fn i = Inr v \<Longrightarrow> retryLoop fn maxRetries baseDelay i = ([], Inr v)"
  by (simp add: retryLoop.simps [of fn maxRetries baseDelay i])

lemma retryLoop_gives_up:
  "fn i = Inl e \<Longrightarrow> retryLoop fn (Suc i) baseDelay i = ([], Inl e)"
  by (simp add: retryLoop.simps [of fn "Suc i" baseDelay i])

lemma retryLoop_retries:
  "Suc i < maxRetries \<Longrightarrow> fn i = Inl e \<Longrightarrow>
   retryLoop fn maxRetries baseDelay i
   = ((if isRateLimit e then baseDelay * 2 ^ (i + 1) else baseDelay * 2 ^ i)
        # fst (retryLoop fn maxRetries baseDelay (Suc i)),
      snd (retryLoop fn maxRetries baseDelay (Suc i)))"
  by (auto simp: retryLoop.simps [of fn maxRetries baseDelay i] split: prod.split)

lemma retryLoop_delay:
  assumes "\<forall>k. j \<le> k \<and> k \<le> i \<longrightarrow> fn k = Inl (e k)" and "j \<le> i" and "Suc i < maxRetries"
  shows "i - j < length (fst (retryLoop fn maxRetries baseDelay j))
         \<and> fst (retryLoop fn maxRetries baseDelay j) ! (i - j)
             = (if isRateLimit (e i) then baseDelay * 2 ^ (i + 1) else baseDelay * 2 ^ i)"
  using assms
proof (induction "i - j" arbitrary: j)
  case 0
  then have "j = i" by simp
  with 0 have "fn i = Inl (e i)" by simp
  with 0 \<open>j = i\<close> show ?case
    by (simp add: retryLoop_retries)
next
  case (Suc n)
  then have fj: "fn j = Inl (e j)" and lt: "j < i" by auto
  have ih: "i - Suc j < length (fst (retryLoop fn maxRetries baseDelay (Suc j)))
         \<and> fst (retryLoop fn maxRetries baseDelay (Suc j)) ! (i - Suc j)
             = (if isRateLimit (e i) then baseDelay * 2 ^ (i + 1) else baseDelay * 2 ^ i)"
    using Suc by (intro Suc.hyps(1)) auto
  have ij: "i - j = Suc (i - Suc j)" using lt by simp
  have "Suc j < maxRetries" using lt Suc.prems(3) by simp
  from retryLoop_retries [of j maxRetries fn "e j" baseDelay, OF this fj] ih show ?case
    by (simp only: ij fst_conv nth_Cons_Suc list.size) simp
qed

lemma retryLoop_success:
  assumes "\<forall>j. i \<le> j \<and> j < k \<longrightarrow> isl (fn j)" and "i \<le> k" and "k < maxRetries"
    and "fn k = Inr v"
  shows "snd (retryLoop fn maxRetries baseDelay i) = Inr v"
  using assms
proof (induction "k - i" arbitrary: i)
  case 0
  then show ?case by (simp add: retryLoop_returns)
next
  case (Suc n)
  then have lt: "i < k" and "isl (fn i)" by auto
  then obtain e where fi: "fn i = Inl e" by (cases "fn i") auto
  have "snd (retryLoop fn maxRetries baseDelay (Suc i)) = Inr v"
    using Suc by (intro Suc.hyps(1)) auto
  moreover have "Suc i < maxRetries" using lt Suc.prems(3) by simp
  ultimately show ?case
    using fi by (simp add: retryLoop_retries)
qed

lemma retry3_all_fail:
  assumes "fn 0 = Inl e0" and "fn 1 = Inl e1" and "fn 2 = Inl e2"
  shows "retryWithBackoff fn 3 b
         = ([if isRateLimit e0 then b * 2 else b, if isRateLimit e1 then b * 4 else b * 2],
            Inl e2)"
proof -
  have 2: "retryLoop fn 3 b (Suc (Suc 0)) = ([], Inl e2)"
    using assms by (simp add: retryLoop_gives_up numeral_2_eq_2 numeral_3_eq_3)
  have 1: "retryLoop fn 3 b (Suc 0) = ([if isRateLimit e1 then b * 4 else b * 2], Inl e2)"
    using assms 2 by (simp add: retryLoop_retries)
  show ?thesis
    using assms 1 by (simp add: retryWithBackoff_def retryLoop_retries)
qed

subsection \<open>Messages and how they are classified\<close>

lemma rate_limit_message: "isRateLimit ''429 Too Many Requests - Rate limit exceeded''"
  by (simp add: isRateLimit_def)

lemma scoreRequest_429:
  "status response = 429 \<Longrightarrow>
   scoreRequest (Resolved response) = Inl ''429 Too Many Requests - Rate limit exceeded''"
  by (simp add: scoreRequest_def)

lemma scoreRequest_serverError:
  "scoreRequest serverError = Inl ''API request failed: 500 Internal Server Error''"
  by (simp add: scoreRequest_def serverError_def respondingWith_def ok_def decimal.simps
      digit_def)

lemma server_error_message:
  "\<not> isRateLimit ''API request failed: 500 Internal Server Error''"
  by (simp add: isRateLimit_def)

text \<open>
  The test reads the message only. The message of a failed request ends in the response's
  status text, so a status text that carries a marker makes the failure a rate-limit
  failure whatever the status.
\<close>

lemma status_text_marks_rate_limit:
  "\<exists>message. scoreRequest (respondingWith 500 ''Too Many Requests'' body) = Inl message
     \<and> isRateLimit message"
  by (simp add: scoreRequest_def respondingWith_def ok_def decimal.simps digit_def
      isRateLimit_def)

lemma steady_fetch: "fetched (steadyEnv outcome r) k = outcome"
  by (simp add: steadyEnv_def)

lemma steady_rnd: "rnd (steadyEnv outcome r) k = r"
  by (simp add: steadyEnv_def)

lemma scoreRequest_mislabelled:
  "scoreRequest mislabelledError = Inl ''API request failed: 500 Too Many Requests''"
  by (simp add: scoreRequest_def mislabelledError_def respondingWith_def ok_def decimal.simps
      digit_def)

lemma mislabelled_message: "isRateLimit ''API request failed: 500 Too Many Requests''"
  by (simp add: isRateLimit_def)

lemma retry_serverError:
  "retryWithBackoff (\<lambda>k. scoreRequest (fetched (steadyEnv serverError r) k)) 3 1000
   = ([1000, 2000], Inl ''API request failed: 500 Internal Server Error'')"
  using server_error_message
  by (simp add: steady_fetch scoreRequest_serverError retry3_all_fail)

lemma retry_mislabelled:
  "retryWithBackoff (\<lambda>k. scoreRequest (fetched (steadyEnv mislabelledError r) k)) 3 1000
   = ([2000, 4000], Inl ''API request failed: 500 Too Many Requests'')"
  using mislabelled_message
  by (simp add: steady_fetch scoreRequest_mislabelled retry3_all_fail)

subsection \<open>What \<open>checkFraud\<close> returns\<close>

lemma snd_checkFraud:
  "snd (checkFraud env w transactionData)
   = (case snd (retryWithBackoff (\<lambda>k. scoreRequest (fetched env k)) 3 1000) of
        Inr result \<Rightarrow> Inr (enhance (rnd env) transactionData result)
      | Inl error \<Rightarrow>
          if isRateLimit error then Inr (mockAnalysis (rnd env) transactionData)
          else Inl error)"
  by (simp add: checkFraud_def Let_def split: prod.split)

lemma lastRequestTime_checkFraud:
  "lastRequestTime (fst (checkFraud env w transactionData))
   = (case waitTime (clock w) (lastRequestTime w) of
        Some wait \<Rightarrow> clock w + wait + int (gate_lag env)
      | None \<Rightarrow> clock w + int (gate_lag env))"
  by (simp add: checkFraud_def Let_def split: prod.split)

lemma checkFraud_exhausted:
  assumes "\<forall>k<3. scoreRequest (fetched env k) = Inl (e k)"
  shows "snd (checkFraud env w transactionData)
         = (if isRateLimit (e 2) then Inr (mockAnalysis (rnd env) transactionData)
            else Inl (e 2))"
proof -
  have "scoreRequest (fetched env 0) = Inl (e 0)" "scoreRequest (fetched env 1) = Inl (e 1)"
    "scoreRequest (fetched env 2) = Inl (e 2)"
    using assms by simp_all
  then have "snd (retryWithBackoff (\<lambda>k. scoreRequest (fetched env k)) 3 1000) = Inl (e 2)"
    by (simp add: retry3_all_fail [where fn = "\<lambda>k. scoreRequest (fetched env k)"])
  then show ?thesis
    by (simp add: snd_checkFraud)
qed

lemma checkFraud_degraded:
  "degraded env \<Longrightarrow>
   snd (checkFraud env w transactionData) = Inr (mockAnalysis (rnd env) transactionData)"
  by (auto simp: degraded_def snd_checkFraud split: sum.splits)

lemma degraded_tooManyRequests: "degraded (steadyEnv tooManyRequests r)"
proof -
  have "scoreRequest tooManyRequests = Inl ''429 Too Many Requests - Rate limit exceeded''"
    by (simp add: tooManyRequests_def respondingWith_def scoreRequest_429)
  then have "snd (retryWithBackoff (\<lambda>k. scoreRequest (fetched (steadyEnv tooManyRequests r) k))
                3 1000) = Inl ''429 Too Many Requests - Rate limit exceeded''"
    by (simp add: steady_fetch retry3_all_fail)
  then show ?thesis
    using rate_limit_message by (simp add: degraded_def)
qed

lemma mock_probability_range:
  assumes "0 \<le> random 0" and "random 0 < 1"
  shows "0 \<le> fraudProbability (mockAnalysis random d)"
    and "fraudProbability (mockAnalysis random d) < 0.8"
  using assms by (simp_all add: mockAnalysis_def Let_def)

lemma explain_transfer:
  "generateExplanation exampleTransfer (2 / 5)
   = [emoji_money @ '' Large transaction amount increases risk'',
      emoji_cycle @ '' Transaction type commonly associated with fraud'']"
  by (simp add: generateExplanation_def exampleTransfer_def Let_def)

text \<open>
  Claim C2. When every attempt is answered with status 429, \<open>checkFraud\<close> returns a
  result and raises nothing. With the random draw in \<open>[0, 1)\<close>, the result's probability is
  in \<open>[0, 0.8)\<close>, \<open>flagged\<close> and \<open>riskLevel\<close> follow from the probability by the
  usual rules, the confidence is 0.85, the model version ends in \<open>-mock\<close>, and the first
  explanation is the rate-limit warning.
\<close>

theorem checkFraud_rate_limited_returns_mock:
  assumes "\<forall>k<3. \<exists>response. fetched env k = Resolved response \<and> status response = 429"
    and "0 \<le> rnd env 0" and "rnd env 0 < 1"
  shows "\<exists>result. snd (checkFraud env w transactionData) = Inr result
           \<and> 0 \<le> fraudProbability result \<and> fraudProbability result < 0.8
           \<and> flagged result = (fraudProbability result > 0.5)
           \<and> riskLevel result = getRiskLevel (fraudProbability result)
           \<and> confidence result = 0.85
           \<and> endsWith (modelVersion result) ''-mock''
           \<and> explanation result \<noteq> [] \<and> explanation result ! 0 = rateLimitWarning"
proof -
  let ?m = "''429 Too Many Requests - Rate limit exceeded''"
  have "\<forall>k<3. scoreRequest (fetched env k) = Inl ?m"
    using assms(1) by (auto simp: scoreRequest_429)
  then have r: "snd (checkFraud env w transactionData)
      = Inr (mockAnalysis (rnd env) transactionData)"
    using checkFraud_exhausted [of env "\<lambda>k. ?m" w transactionData] rate_limit_message
    by simp
  have "endsWith (modelVersion (mockAnalysis (rnd env) transactionData)) ''-mock''"
    by (simp add: mockAnalysis_def Let_def endsWith_def)
  moreover have "flagged (mockAnalysis (rnd env) transactionData)
      = (fraudProbability (mockAnalysis (rnd env) transactionData) > 0.5)"
    by (simp add: mockAnalysis_def Let_def)
  moreover have "riskLevel (mockAnalysis (rnd env) transactionData)
      = getRiskLevel (fraudProbability (mockAnalysis (rnd env) transactionData))"
    by (simp add: mockAnalysis_def Let_def)
  moreover have "confidence (mockAnalysis (rnd env) transactionData) = 0.85"
    by (simp add: mockAnalysis_def Let_def)
  moreover have "explanation (mockAnalysis (rnd env) transactionData) \<noteq> []
      \<and> explanation (mockAnalysis (rnd env) transactionData) ! 0 = rateLimitWarning"
    by (simp add: mockAnalysis_def Let_def)
  ultimately show ?thesis
    using r mock_probability_range [of "rnd env" transactionData] assms(2,3) by simp
qed

theorem checkFraud_rate_limited_returns_mock_witness:
  "\<exists>result. snd (checkFraud (steadyEnv tooManyRequests (1 / 2)) (initialWorld 5000)
                   exampleTransfer) = Inr result
     \<and> fraudProbability result < 0.8 \<and> confidence result = 0.85
     \<and> endsWith (modelVersion result) ''-mock''
     \<and> explanation result ! 0 = rateLimitWarning"
proof -
  have h1: "\<forall>k<3. \<exists>response. fetched (steadyEnv tooManyRequests (1 / 2)) k = Resolved response
              \<and> status response = 429"
    by (simp add: steady_fetch tooManyRequests_def respondingWith_def)
  have h2: "0 \<le> rnd (steadyEnv tooManyRequests (1 / 2)) 0"
    and h3: "rnd (steadyEnv tooManyRequests (1 / 2)) 0 < 1"
    by (simp_all add: steady_rnd)
  from checkFraud_rate_limited_returns_mock
    [OF h1 h2 h3, of "initialWorld 5000" exampleTransfer]
  show ?thesis
    by blast
qed

text \<open>
  Claim C3, as the code has it. When all three attempts fail and the message of the last
  error contains neither \<open>429\<close> nor \<open>Too Many Requests\<close>, \<open>checkFraud\<close> raises
  the error of the last attempt and returns no mock result.
\<close>

theorem checkFraud_propagates_failure:
  assumes "\<forall>k<3. scoreRequest (fetched env k) = Inl (e k)"
    and "\<not> includes_str (e 2) ''429''" and "\<not> includes_str (e 2) ''Too Many Requests''"
  shows "snd (checkFraud env w transactionData) = Inl (e 2)"
  using checkFraud_exhausted [OF assms(1)] assms(2,3) by (simp add: isRateLimit_def)

theorem checkFraud_propagates_failure_witness:
  "snd (checkFraud (steadyEnv serverError (1 / 2)) (initialWorld 5000) exampleTransfer)
   = Inl ''API request failed: 500 Internal Server Error''"
proof -
  have h1: "\<forall>k<3. scoreRequest (fetched (steadyEnv serverError (1 / 2)) k)
               = Inl ''API request failed: 500 Internal Server Error''"
    by (simp add: steady_fetch scoreRequest_serverError)
  have h2: "\<not> includes_str ''API request failed: 500 Internal Server Error'' ''429''"
    and h3: "\<not> includes_str ''API request failed: 500 Internal Server Error''
                 ''Too Many Requests''"
    by simp_all
  from checkFraud_propagates_failure [of "steadyEnv serverError (1 / 2)"
      "\<lambda>k. ''API request failed: 500 Internal Server Error''", OF h1 h2 h3]
  show ?thesis .
qed

text \<open>
  Claim C3, as stated, fails: three answers with status 500 and the status text
  \<open>Too Many Requests\<close> are three failures that are not status 429, and \<open>checkFraud\<close>
  returns the mock result.
\<close>

theorem mislabelled_failure_returns_mock:
  "scoreRequest (fetched (steadyEnv mislabelledError (1 / 2)) 0)
     = Inl ''API request failed: 500 Too Many Requests''
   \<and> scoreRequest (fetched (steadyEnv mislabelledError (1 / 2)) 1)
     = Inl ''API request failed: 500 Too Many Requests''
   \<and> scoreRequest (fetched (steadyEnv mislabelledError (1 / 2)) 2)
     = Inl ''API request failed: 500 Too Many Requests''
   \<and> \<not> isl (snd (checkFraud (steadyEnv mislabelledError (1 / 2)) (initialWorld 5000)
                   exampleTransfer))
   \<and> modelVersion (projr (snd (checkFraud (steadyEnv mislabelledError (1 / 2))
                                 (initialWorld 5000) exampleTransfer))) = ''v2.1.0-mock''"
proof -
  have "\<forall>k<3. scoreRequest (fetched (steadyEnv mislabelledError (1 / 2)) k)
          = Inl ''API request failed: 500 Too Many Requests''"
    by (simp add: steady_fetch scoreRequest_mislabelled)
  from checkFraud_exhausted [OF this] mislabelled_message
  have "snd (checkFraud (steadyEnv mislabelledError (1 / 2)) (initialWorld 5000)
              exampleTransfer)
        = Inr (mockAnalysis (rnd (steadyEnv mislabelledError (1 / 2))) exampleTransfer)"
    by simp
  then show ?thesis
    by (simp add: steady_fetch scoreRequest_mislabelled mockAnalysis_def Let_def)
qed

text \<open>
  Claim C10. On the degraded path, with the random draw in \<open>[0, 1)\<close>, the risk level of
  the result is LOW, MEDIUM or HIGH, never CRITICAL.
\<close>

theorem degraded_never_critical:
  assumes "degraded env" and "0 \<le> rnd env 0" and "rnd env 0 < 1"
  shows "\<exists>result. snd (checkFraud env w transactionData) = Inr result
           \<and> riskLevel result \<noteq> CRITICAL
           \<and> riskLevel result \<in> {LOW, MEDIUM, HIGH}"
proof -
  have "rnd env 0 * 0.8 < 0.8" using assms(3) by simp
  then have "getRiskLevel (rnd env 0 * 0.8) \<in> {LOW, MEDIUM, HIGH}"
    by (simp add: getRiskLevel_def)
  then have "riskLevel (mockAnalysis (rnd env) transactionData) \<in> {LOW, MEDIUM, HIGH}"
    by (simp add: mockAnalysis_def Let_def)
  then show ?thesis
    using checkFraud_degraded [OF assms(1)] by auto
qed

theorem degraded_never_critical_witness:
  "\<exists>result. snd (checkFraud (steadyEnv tooManyRequests (99 / 100)) (initialWorld 5000)
                   exampleTransfer) = Inr result
     \<and> riskLevel result \<noteq> CRITICAL"
proof -
  have h2: "0 \<le> rnd (steadyEnv tooManyRequests (99 / 100)) 0"
    and h3: "rnd (steadyEnv tooManyRequests (99 / 100)) 0 < 1"
    by (simp_all add: steady_rnd)
  from degraded_never_critical
    [OF degraded_tooManyRequests h2 h3, of "initialWorld 5000" exampleTransfer]
  show ?thesis by blast
qed

text \<open>
  Claim C5, as the code has it. On the degraded path the explanation list is the warning
  followed by the derived explanations without their first entry: the warning takes the
  place of the first derived explanation.
\<close>

theorem degraded_explanation_replaces_first:
  assumes "degraded env"
  shows "\<exists>result. snd (checkFraud env w transactionData) = Inr result
           \<and> explanation result
               = rateLimitWarning
                   # tl (generateExplanation transactionData (fraudProbability result))"
  using checkFraud_degraded [OF assms] by (simp add: mockAnalysis_def Let_def drop_Suc)

theorem degraded_explanation_replaces_first_witness:
  "\<exists>result. snd (checkFraud (steadyEnv tooManyRequests (1 / 2)) (initialWorld 5000)
                   exampleTransfer) = Inr result
     \<and> explanation result
         = [rateLimitWarning,
            emoji_cycle @ '' Transaction type commonly associated with fraud'']"
proof -
  from degraded_explanation_replaces_first
    [OF degraded_tooManyRequests, of "1 / 2" "initialWorld 5000" exampleTransfer]
  obtain result where
    r: "snd (checkFraud (steadyEnv tooManyRequests (1 / 2)) (initialWorld 5000)
              exampleTransfer) = Inr result"
    and e: "explanation result
            = rateLimitWarning
                # tl (generateExplanation exampleTransfer (fraudProbability result))"
    by blast
  have "result = mockAnalysis (rnd (steadyEnv tooManyRequests (1 / 2))) exampleTransfer"
    using r checkFraud_degraded [OF degraded_tooManyRequests, of "1 / 2" "initialWorld 5000"
        exampleTransfer]
    by simp
  then have "fraudProbability result = 2 / 5"
    by (simp add: mockAnalysis_def Let_def steady_rnd)
  with e r show ?thesis
    by (simp add: explain_transfer)
qed

text \<open>
  Claim C5, as stated, fails: for a transfer of 20000 answered with status 429 three times
  and a random draw of 0.5, the derived explanations are the large-amount and the
  transaction-type entries, and the returned list holds the warning and the
  transaction-type entry only.
\<close>

theorem degraded_explanation_not_prepended:
  "\<not> isl (snd (checkFraud (steadyEnv tooManyRequests (1 / 2)) (initialWorld 5000)
                 exampleTransfer))
   \<and> explanation (projr (snd (checkFraud (steadyEnv tooManyRequests (1 / 2))
                                (initialWorld 5000) exampleTransfer)))
       \<noteq> rateLimitWarning
           # generateExplanation exampleTransfer
               (fraudProbability (projr (snd (checkFraud (steadyEnv tooManyRequests (1 / 2))
                                               (initialWorld 5000) exampleTransfer))))"
proof -
  have "snd (checkFraud (steadyEnv tooManyRequests (1 / 2)) (initialWorld 5000)
          exampleTransfer)
        = Inr (mockAnalysis (rnd (steadyEnv tooManyRequests (1 / 2))) exampleTransfer)"
    by (rule checkFraud_degraded [OF degraded_tooManyRequests])
  then show ?thesis
    by (simp add: mockAnalysis_def Let_def steady_rnd explain_transfer)
qed

subsection \<open>Normalizing a successful response\<close>

lemma checkFraud_success:
  assumes "k < 3" and "\<forall>j<k. isl (scoreRequest (fetched env j))"
    and "scoreRequest (fetched env k) = Inr body"
  shows "snd (checkFraud env w transactionData) = Inr (enhance (rnd env) transactionData body)"
proof -
  have "snd (retryLoop (\<lambda>k. scoreRequest (fetched env k)) 3 1000 0) = Inr body"
    using assms by (intro retryLoop_success [where k = k]) auto
  then show ?thesis
    by (simp add: snd_checkFraud retryWithBackoff_def)
qed

lemma scoreRequest_cleared: "scoreRequest clearedButLikely = Inr flaggedFalseBody"
  by (simp add: scoreRequest_def clearedButLikely_def respondingWith_def ok_def)

text \<open>
  Claim C6, as the code has it. After a successful request the returned \<open>flagged\<close> is
  true exactly when the response's \<open>flagged\<close> is true or the probability exceeds 0.5. A
  response whose \<open>flagged\<close> is true is flagged; a response without the field, and also a
  response whose \<open>flagged\<close> is false, gets the value derived from the probability.
\<close>

theorem enhance_flagged_or_derived:
  assumes "k < 3" and "\<forall>j<k. isl (scoreRequest (fetched env j))"
    and "scoreRequest (fetched env k) = Inr body"
  shows "\<exists>result. snd (checkFraud env w transactionData) = Inr result
           \<and> flagged result
               = (r_flagged body = Some True
                  \<or> orNumber (r_fraudProbability body) (orNumber (r_fraud_probability body) 0)
                      > 0.5)
           \<and> (r_flagged body = Some True \<longrightarrow> flagged result)
           \<and> (r_flagged body = None \<longrightarrow> flagged result = (fraudProbability result > 0.5))
           \<and> (r_flagged body = Some False \<longrightarrow> flagged result = (fraudProbability result > 0.5))"
  using checkFraud_success [OF assms]
  by (simp add: enhance_def Let_def responseProbability_def)

theorem enhance_flagged_or_derived_witness:
  "\<exists>result. snd (checkFraud (steadyEnv clearedButLikely (1 / 2)) (initialWorld 5000)
                   exampleTransfer) = Inr result
     \<and> flagged result \<and> fraudProbability result = 0.9"
proof -
  have h1: "(0::nat) < 3" by simp
  have h2: "\<forall>j<0. isl (scoreRequest (fetched (steadyEnv clearedButLikely (1 / 2)) j))"
    by simp
  have h3: "scoreRequest (fetched (steadyEnv clearedButLikely (1 / 2)) 0) = Inr flaggedFalseBody"
    by (simp add: steady_fetch scoreRequest_cleared)
  from enhance_flagged_or_derived [OF h1 h2 h3, of "initialWorld 5000" exampleTransfer]
  obtain result where
    r: "snd (checkFraud (steadyEnv clearedButLikely (1 / 2)) (initialWorld 5000)
              exampleTransfer) = Inr result"
    and f: "flagged result
            = (r_flagged flaggedFalseBody = Some True
               \<or> orNumber (r_fraudProbability flaggedFalseBody)
                    (orNumber (r_fraud_probability flaggedFalseBody) 0) > 0.5)"
    by blast
  have "result = enhance (rnd (steadyEnv clearedButLikely (1 / 2))) exampleTransfer flaggedFalseBody"
    using r checkFraud_success [OF h1 h2 h3, of "initialWorld 5000" exampleTransfer] by simp
  then have "fraudProbability result = 0.9"
    by (simp add: enhance_def Let_def responseProbability_def orNumber_def flaggedFalseBody_def)
  moreover have "flagged result"
    using f by (simp add: orNumber_def flaggedFalseBody_def)
  ultimately show ?thesis using r by simp
qed

text \<open>
  Claim C6, as stated, fails: a response that carries \<open>flagged\<close> false with probability
  0.9 comes back flagged.
\<close>

theorem response_flagged_false_overridden:
  "scoreRequest (fetched (steadyEnv clearedButLikely (1 / 2)) 0) = Inr flaggedFalseBody
   \<and> r_flagged flaggedFalseBody = Some False
   \<and> \<not> isl (snd (checkFraud (steadyEnv clearedButLikely (1 / 2)) (initialWorld 5000)
                   exampleTransfer))
   \<and> flagged (projr (snd (checkFraud (steadyEnv clearedButLikely (1 / 2)) (initialWorld 5000)
                          exampleTransfer))) = True"
proof -
  have h1: "(0::nat) < 3" by simp
  have h2: "\<forall>j<0. isl (scoreRequest (fetched (steadyEnv clearedButLikely (1 / 2)) j))"
    by simp
  have h3: "scoreRequest (fetched (steadyEnv clearedButLikely (1 / 2)) 0) = Inr flaggedFalseBody"
    by (simp add: steady_fetch scoreRequest_cleared)
  have "snd (checkFraud (steadyEnv clearedButLikely (1 / 2)) (initialWorld 5000) exampleTransfer)
        = Inr (enhance (rnd (steadyEnv clearedButLikely (1 / 2))) exampleTransfer flaggedFalseBody)"
    by (rule checkFraud_success [OF h1 h2 h3])
  then show ?thesis
    using h3
    by (simp add: enhance_def Let_def responseProbability_def orNumber_def flaggedFalseBody_def)
qed

subsection \<open>Backoff delays\<close>

text \<open>
  Claim C7, as the code has it. When attempt \<open>i\<close> (counted from 0) fails and is not the
  last one allowed, the loop waits 1000 ms times \<open>2 ^ (i + 1)\<close> before the next attempt
  when the message of the error contains \<open>429\<close> or \<open>Too Many Requests\<close>, and 1000 ms
  times \<open>2 ^ i\<close> when it contains neither. The error of a response with status 429
  contains both.
\<close>

theorem retryWithBackoff_delay:
  assumes "\<forall>k\<le>i. fn k = Inl (e k)" and "Suc i < maxRetries"
  shows "i < length (fst (retryWithBackoff fn maxRetries 1000))
         \<and> fst (retryWithBackoff fn maxRetries 1000) ! i
             = (if includes_str (e i) ''429'' \<or> includes_str (e i) ''Too Many Requests''
                then 1000 * 2 ^ (i + 1) else 1000 * 2 ^ i)
         \<and> (status response = 429 \<longrightarrow>
              (\<exists>message. scoreRequest (Resolved response) = Inl message
                 \<and> (includes_str message ''429''
                      \<or> includes_str message ''Too Many Requests'')))"
proof -
  have "status response = 429 \<longrightarrow>
        (\<exists>message. scoreRequest (Resolved response) = Inl message
           \<and> (includes_str message ''429'' \<or> includes_str message ''Too Many Requests''))"
    using rate_limit_message by (auto simp: scoreRequest_429 isRateLimit_def)
  then show ?thesis
    using retryLoop_delay [of 0 i fn e maxRetries 1000] assms
    by (simp add: retryWithBackoff_def isRateLimit_def)
qed

theorem retryWithBackoff_delay_witness:
  "fst (retryWithBackoff (\<lambda>k. scoreRequest serverError) 3 1000) ! 0 = 1000
   \<and> fst (retryWithBackoff (\<lambda>k. scoreRequest serverError) 3 1000) ! 1 = 2000
   \<and> fst (retryWithBackoff (\<lambda>k. scoreRequest tooManyRequests) 3 1000) ! 0 = 2000
   \<and> fst (retryWithBackoff (\<lambda>k. scoreRequest tooManyRequests) 3 1000) ! 1 = 4000"
proof -
  let ?e = "''API request failed: 500 Internal Server Error''"
  let ?r = "''429 Too Many Requests - Rate limit exceeded''"
  have s: "\<forall>k\<le>i. scoreRequest serverError = Inl ?e" for i :: nat
    by (simp add: scoreRequest_serverError)
  have t: "\<forall>k\<le>i. scoreRequest tooManyRequests = Inl ?r" for i :: nat
    by (simp add: tooManyRequests_def respondingWith_def scoreRequest_429)
  have 0: "Suc 0 < (3::nat)" and 1: "Suc 1 < (3::nat)" by simp_all
  from retryWithBackoff_delay [of 0 "\<lambda>k. scoreRequest serverError" "\<lambda>k. ?e" 3, OF s 0]
    retryWithBackoff_delay [of 1 "\<lambda>k. scoreRequest serverError" "\<lambda>k. ?e" 3, OF s 1]
    retryWithBackoff_delay [of 0 "\<lambda>k. scoreRequest tooManyRequests" "\<lambda>k. ?r" 3, OF t 0]
    retryWithBackoff_delay [of 1 "\<lambda>k. scoreRequest tooManyRequests" "\<lambda>k. ?r" 3, OF t 1]
  show ?thesis
    using server_error_message rate_limit_message by (simp add: isRateLimit_def)
qed

text \<open>
  Claim C7, as stated, fails: after a failure with status 500 and the status text
  \<open>Too Many Requests\<close>, which is not a status-429 failure, the loop waits 2000 ms and
  then 4000 ms, not 1000 ms and 2000 ms.
\<close>

theorem mislabelled_failure_backs_off_longer:
  "(scoreRequest \<circ> fetched (steadyEnv mislabelledError (1 / 2))) 0
     = Inl ''API request failed: 500 Too Many Requests''
   \<and> (scoreRequest \<circ> fetched (steadyEnv mislabelledError (1 / 2))) 1
     = Inl ''API request failed: 500 Too Many Requests''
   \<and> fst (retryWithBackoff (scoreRequest \<circ> fetched (steadyEnv mislabelledError (1 / 2)))
            3 1000) = [2000, 4000]
   \<and> fst (retryWithBackoff (scoreRequest \<circ> fetched (steadyEnv mislabelledError (1 / 2)))
            3 1000) ! 0 \<noteq> 1000 * 2 ^ 0
   \<and> fst (retryWithBackoff (scoreRequest \<circ> fetched (steadyEnv mislabelledError (1 / 2)))
            3 1000) ! 1 \<noteq> 1000 * 2 ^ 1"
proof -
  have eq: "retryWithBackoff (scoreRequest \<circ> fetched (steadyEnv mislabelledError (1 / 2)))
              3 1000
            = ([2000, 4000], Inl ''API request failed: 500 Too Many Requests'')"
    by (simp only: comp_def retry_mislabelled)
  show ?thesis
    unfolding eq by (simp add: steady_fetch scoreRequest_mislabelled)
qed

subsection \<open>Spacing of requests\<close>

lemma gate_spacing:
  "lastRequestTime w + MIN_REQUEST_INTERVAL
   \<le> lastRequestTime (fst (checkFraud env w transactionData))"
  by (simp add: lastRequestTime_checkFraud waitTime_def Let_def)

lemma dispatchTimes_successive:
  "successively (\<lambda>s t. s + MIN_REQUEST_INTERVAL \<le> t) (lastRequestTime w # dispatchTimes w calls)"
proof (induction calls arbitrary: w)
  case Nil
  show ?case by simp
next
  case (Cons c calls)
  obtain idle env d where c: "c = (idle, env, d)" by (cases c)
  let ?w = "fst (checkFraud env (w\<lparr>clock := clock w + int idle\<rparr>) d)"
  have "lastRequestTime w + MIN_REQUEST_INTERVAL \<le> lastRequestTime ?w"
    using gate_spacing [of "w\<lparr>clock := clock w + int idle\<rparr>" env d] by simp
  with Cons.IH [of ?w] show ?case
    by (simp add: c Let_def)
qed

lemma successively_nth:
  "successively P xs \<Longrightarrow> Suc i < length xs \<Longrightarrow> P (xs ! i) (xs ! Suc i)"
proof (induction P xs arbitrary: i rule: successively.induct)
  case (3 P x y xs)
  then show ?case by (cases i) auto
qed simp_all

lemma length_dispatchTimes: "length (dispatchTimes w calls) = length calls"
  by (induction calls arbitrary: w) (auto simp: Let_def)

lemma requestStarts_first:
  "requestStarts env w transactionData \<noteq> []
   \<and> hd (requestStarts env w transactionData)
       = lastRequestTime (fst (checkFraud env w transactionData))"
  by (simp add: requestStarts_def Let_def upt_rec [of 0] hd_map)

text \<open>
  Claim C1, as the code has it. For a caller that awaits each call before the next, the
  times that successive calls of \<open>checkFraud\<close> record, each the time at which the call
  issues its first request, are at least 2000 ms apart. A call that starts less than 2000 ms
  after the last recorded time waits for the remainder and records the time after the wait;
  a call that starts later records its time without waiting.
\<close>

theorem checkFraud_min_interval:
  "(\<forall>i. Suc i < length (lastRequestTime w # dispatchTimes w calls) \<longrightarrow>
        (lastRequestTime w # dispatchTimes w calls) ! i + 2000
        \<le> (lastRequestTime w # dispatchTimes w calls) ! Suc i)
   \<and> (clock w - lastRequestTime w < 2000 \<longrightarrow>
        waitTime (clock w) (lastRequestTime w) = Some (2000 - (clock w - lastRequestTime w))
        \<and> lastRequestTime (fst (checkFraud env w transactionData))
            = clock w + (2000 - (clock w - lastRequestTime w)) + int (gate_lag env))
   \<and> (2000 \<le> clock w - lastRequestTime w \<longrightarrow>
        waitTime (clock w) (lastRequestTime w) = None
        \<and> lastRequestTime (fst (checkFraud env w transactionData))
            = clock w + int (gate_lag env))
   \<and> requestStarts env w transactionData \<noteq> []
   \<and> hd (requestStarts env w transactionData)
       = lastRequestTime (fst (checkFraud env w transactionData))"
proof -
  have "\<forall>i. Suc i < length (lastRequestTime w # dispatchTimes w calls) \<longrightarrow>
        (lastRequestTime w # dispatchTimes w calls) ! i + 2000
        \<le> (lastRequestTime w # dispatchTimes w calls) ! Suc i"
    using successively_nth [OF dispatchTimes_successive [of w calls]]
    by (simp add: MIN_REQUEST_INTERVAL_def)
  then show ?thesis
    using requestStarts_first [of env w transactionData]
    by (simp add: lastRequestTime_checkFraud waitTime_def Let_def MIN_REQUEST_INTERVAL_def)
qed

lemma checkFraud_first_try:
  assumes "scoreRequest (fetched env 0) = Inr body"
  shows "fst (checkFraud env w transactionData)
         = \<lparr>clock = lastRequestTime (fst (checkFraud env w transactionData))
                     + int (fetch_ms env 0),
            lastRequestTime = lastRequestTime (fst (checkFraud env w transactionData))\<rparr>"
proof -
  have "retryWithBackoff (\<lambda>k. scoreRequest (fetched env k)) 3 1000 = ([], Inr body)"
    using assms by (simp add: retryWithBackoff_def retryLoop_returns)
  then show ?thesis
    by (simp add: checkFraud_def Let_def retryElapsed_def)
qed

theorem checkFraud_min_interval_witness:
  "dispatchTimes (initialWorld 5000)
     [(0, steadyEnv clearedButLikely (1 / 2), exampleTransfer),
      (50, steadyEnv clearedButLikely (1 / 2), exampleTransfer)] = [5000, 7000]
   \<and> (5000::int) + 2000 \<le> 7000
   \<and> lastRequestTime (fst (checkFraud (steadyEnv clearedButLikely (1 / 2))
        \<lparr>clock = 5150, lastRequestTime = 5000\<rparr> exampleTransfer)) = 7000"
proof -
  let ?E = "steadyEnv clearedButLikely (1 / 2)"
  let ?calls = "[(0, ?E, exampleTransfer), (50, ?E, exampleTransfer)]"
  let ?w1 = "\<lparr>clock = 5150, lastRequestTime = 5000\<rparr>"
  have ok: "scoreRequest (fetched ?E 0) = Inr flaggedFalseBody"
    by (simp add: steady_fetch scoreRequest_cleared)
  have lag: "gate_lag ?E = 0" and ms: "fetch_ms ?E 0 = 100"
    by (simp_all add: steadyEnv_def)
  have a: "(clock ?w1 - lastRequestTime ?w1 < 2000)" by simp
  from checkFraud_min_interval [of ?w1 ?calls ?E exampleTransfer] a lag
  have t2: "lastRequestTime (fst (checkFraud ?E ?w1 exampleTransfer)) = 7000"
    by simp
  have b: "2000 \<le> clock (initialWorld 5000) - lastRequestTime (initialWorld 5000)"
    by (simp add: initialWorld_def)
  from checkFraud_min_interval [of "initialWorld 5000" ?calls ?E exampleTransfer] b lag
  have t1: "lastRequestTime (fst (checkFraud ?E (initialWorld 5000) exampleTransfer)) = 5000"
    by (simp add: initialWorld_def)
  have w1: "fst (checkFraud ?E (initialWorld 5000) exampleTransfer)
            = \<lparr>clock = 5100, lastRequestTime = 5000\<rparr>"
    using checkFraud_first_try [OF ok, of "initialWorld 5000" exampleTransfer] t1 ms by simp
  have "dispatchTimes (initialWorld 5000) ?calls = [5000, 7000]"
    using t1 t2 w1 by (simp add: Let_def initialWorld_def)
  then show ?thesis using t2 by simp
qed

lemma upt3: "[0..<Suc (Suc (Suc 0))] = [0, Suc 0, Suc (Suc 0)]"
  by (simp add: upt_rec)

lemma serverError_call:
  assumes "2000 \<le> t - l"
  shows "fst (checkFraud (steadyEnv serverError r) \<lparr>clock = t, lastRequestTime = l\<rparr> d)
         = \<lparr>clock = t + 3300, lastRequestTime = t\<rparr>"
    and "requestStarts (steadyEnv serverError r) \<lparr>clock = t, lastRequestTime = l\<rparr> d
         = [t, t + 1100, t + 3200]"
proof -
  have g: "gate_lag (steadyEnv serverError r) = 0"
    and f: "fetch_ms (steadyEnv serverError r) k = 100"
    and l: "timer_lag (steadyEnv serverError r) k = 0" for k
    by (simp_all add: steadyEnv_def)
  have e: "retryElapsed (steadyEnv serverError r) [1000, 2000] = 3300"
    by (simp add: retryElapsed_def f l upt3 numeral_2_eq_2)
  show w: "fst (checkFraud (steadyEnv serverError r) \<lparr>clock = t, lastRequestTime = l\<rparr> d)
         = \<lparr>clock = t + 3300, lastRequestTime = t\<rparr>"
    using assms
    by (simp add: checkFraud_def Let_def retry_serverError e g waitTime_def
        MIN_REQUEST_INTERVAL_def)
  show "requestStarts (steadyEnv serverError r) \<lparr>clock = t, lastRequestTime = l\<rparr> d
         = [t, t + 1100, t + 3200]"
    by (simp add: requestStarts_def Let_def w retry_serverError f l upt3 numeral_2_eq_2)
qed

text \<open>
  Claim C1, as stated, fails: the retries of one call are not held back by the minimum
  interval, and neither is the call after them. Two calls in a row that are answered with
  status 500 throughout send their requests at 5000, 6100, 8200, 8300, 9400 and 11500;
  the second request follows the first after 1100 ms and the fourth the third after 100 ms.
\<close>

theorem requests_closer_than_interval:
  "allRequestStarts (initialWorld 5000) failingTwice = [5000, 6100, 8200, 8300, 9400, 11500]
   \<and> allRequestStarts (initialWorld 5000) failingTwice ! 1
       < allRequestStarts (initialWorld 5000) failingTwice ! 0 + 2000
   \<and> allRequestStarts (initialWorld 5000) failingTwice ! 3
       < allRequestStarts (initialWorld 5000) failingTwice ! 2 + 2000"
proof -
  have "allRequestStarts (initialWorld 5000) failingTwice
        = [5000, 6100, 8200, 8300, 9400, 11500]"
    by (simp add: failingTwice_def initialWorld_def Let_def serverError_call)
  then show ?thesis by simp
qed

subsection \<open>Statistics and history\<close>

lemma tryFetch_fails:
  "fetchFails outcome \<Longrightarrow> tryFetch outcome = Inr None \<or> (\<exists>e. tryFetch outcome = Inl e)"
  by (auto simp: fetchFails_def tryFetch_def split: FetchOutcome.splits sum.splits)

text \<open>
  Claim C9. \<open>getModelStats\<close> and \<open>getTransactionHistory\<close> always return a value.
  When the request fails, \<open>getModelStats\<close> returns the fallback record (accuracy 0.94,
  precision 0.89, recall 0.92, f1Score 0.905 and the fixed counts) and
  \<open>getTransactionHistory\<close> returns the synthesized history.
\<close>

theorem stats_and_history_never_raise:
  "(\<exists>v. getModelStats now outcome = Inr v)
   \<and> (\<exists>v. getTransactionHistory random nowAt outcome' limit = Inr v)
   \<and> (fetchFails outcome \<longrightarrow> getModelStats now outcome = Inr (Local (fallbackStats now)))
   \<and> (fetchFails outcome' \<longrightarrow>
        getTransactionHistory random nowAt outcome' limit
        = Inr (Local (generateMockHistory random nowAt limit)))
   \<and> accuracy (fallbackStats now) = 0.94 \<and> precision (fallbackStats now) = 0.89
   \<and> recall (fallbackStats now) = 0.92 \<and> f1Score (fallbackStats now) = 0.905
   \<and> totalTransactions (fallbackStats now) = 15847 \<and> fraudDetected (fallbackStats now) = 1247
   \<and> falsePositives (fallbackStats now) = 89"
proof -
  have "\<exists>v. getModelStats now outcome = Inr v"
    by (simp add: getModelStats_def split: sum.split option.split)
  moreover have "\<exists>v. getTransactionHistory random nowAt outcome' limit = Inr v"
    by (simp add: getTransactionHistory_def split: sum.split option.split)
  moreover have "getModelStats now outcome = Inr (Local (fallbackStats now))"
    if "fetchFails outcome"
    using tryFetch_fails [OF that] by (auto simp: getModelStats_def)
  moreover have "getTransactionHistory random nowAt outcome' limit
        = Inr (Local (generateMockHistory random nowAt limit))"
    if "fetchFails outcome'"
    using tryFetch_fails [OF that] by (auto simp: getTransactionHistory_def)
  ultimately show ?thesis
    by (simp add: fallbackStats_def)
qed

theorem stats_and_history_never_raise_witness:
  "getModelStats 1700000000000 networkDown = Inr (Local (fallbackStats 1700000000000))
   \<and> getTransactionHistory exampleDraws exampleClock unavailable 2
       = Inr (Local (generateMockHistory exampleDraws exampleClock 2))"
proof -
  have "fetchFails networkDown" and "fetchFails unavailable"
    by (simp_all add: fetchFails_def networkDown_def unavailable_def respondingWith_def ok_def)
  with stats_and_history_never_raise [of "1700000000000" networkDown exampleDraws exampleClock unavailable 2]
  show ?thesis by simp
qed

lemma mockLoop_eq:
  "mockLoop random nowAt limit i history
   = history @ map (mockTransaction random nowAt) [i..<nat limit]"
proof (induction random nowAt limit i history rule: mockLoop.induct)
  case (1 random nowAt limit i history)
  show ?case
  proof (cases "int i < limit")
    case True
    then have "i < nat limit" by simp
    then have "[i..<nat limit] = i # [Suc i..<nat limit]"
      by (simp add: upt_conv_Cons)
    with 1 True show ?thesis
      by (simp add: mockLoop.simps [of random nowAt limit i history])
  next
    case False
    then have "nat limit \<le> i" by simp
    with False show ?thesis
      by (simp add: mockLoop.simps [of random nowAt limit i history])
  qed
qed

lemma generateMockHistory_eq:
  "generateMockHistory random nowAt limit
   = sort_key (\<lambda>t. - tx_timestamp t) (map (mockTransaction random nowAt) [0..<nat limit])"
  by (simp add: generateMockHistory_def mockLoop_eq)

lemma timeClip_trailing_week:
  assumes "0 \<le> r" and "r < 1"
  shows "now - 604800000 \<le> timeClip (real_of_int now - r * WEEK_MS)"
    and "timeClip (real_of_int now - r * WEEK_MS) \<le> now"
proof -
  have w: "WEEK_MS = 604800000" by (simp add: WEEK_MS_def)
  have lo: "real_of_int now - 604800000 < real_of_int now - r * WEEK_MS"
    using assms(2) by (simp add: w)
  have hi: "real_of_int now - r * WEEK_MS \<le> real_of_int now"
    using assms(1) by (simp add: w)
  have a: "now - 604800000 \<le> \<lfloor>real_of_int now - r * WEEK_MS\<rfloor>"
    using lo by (simp add: le_floor_iff)
  have b: "\<lfloor>real_of_int now - r * WEEK_MS\<rfloor> \<le> \<lceil>real_of_int now - r * WEEK_MS\<rceil>"
    by (rule floor_le_ceiling)
  have c: "\<lceil>real_of_int now - r * WEEK_MS\<rceil> \<le> now"
    using hi by (simp add: ceiling_le_iff)
  have "now - 604800000 \<le> \<lceil>real_of_int now - r * WEEK_MS\<rceil>"
    using a b by linarith
  moreover have "\<lfloor>real_of_int now - r * WEEK_MS\<rfloor> \<le> now"
    using b c by linarith
  ultimately show "now - 604800000 \<le> timeClip (real_of_int now - r * WEEK_MS)"
    and "timeClip (real_of_int now - r * WEEK_MS) \<le> now"
    using a c by (simp_all add: timeClip_def)
qed

lemma descending_sort:
  "sorted_wrt (\<ge>) (map tx_timestamp (sort_key (\<lambda>t. - tx_timestamp t) xs))"
proof -
  have "sorted (map (\<lambda>t. - tx_timestamp t) (sort_key (\<lambda>t. - tx_timestamp t) xs))"
    by (rule sorted_sort_key)
  then show ?thesis
    by (simp add: sorted_map sorted_wrt_map)
qed

text \<open>
  Claim C8. When the request fails and \<open>limit\<close> is not negative,
  \<open>getTransactionHistory\<close> returns \<open>limit\<close> synthesized records in descending
  order of timestamp. Each record is flagged exactly when its probability exceeds 0.5, its
  risk level is \<open>getRiskLevel\<close> of its probability, and, with the random draws in
  \<open>[0, 1)\<close>, its timestamp lies in the seven days before the clock reading it was made
  from.
\<close>

theorem getTransactionHistory_fallback:
  assumes "fetchFails outcome" and "0 \<le> limit" and "\<forall>k. 0 \<le> random k \<and> random k < 1"
  shows "\<exists>history. getTransactionHistory random nowAt outcome limit = Inr (Local history)
           \<and> int (length history) = limit
           \<and> sorted_wrt (\<ge>) (map tx_timestamp history)
           \<and> (\<forall>t \<in> set history.
                 tx_flagged t = (tx_fraudProbability t > 0.5)
                 \<and> tx_riskLevel t = getRiskLevel (tx_fraudProbability t)
                 \<and> (\<exists>i. int i < limit
                        \<and> nowAt (2 * i + 1) - 7 * 24 * 60 * 60 * 1000 \<le> tx_timestamp t
                        \<and> tx_timestamp t \<le> nowAt (2 * i + 1)))"
proof -
  let ?h = "generateMockHistory random nowAt limit"
  have r: "getTransactionHistory random nowAt outcome limit = Inr (Local ?h)"
    using tryFetch_fails [OF assms(1)] by (auto simp: getTransactionHistory_def)
  have len: "int (length ?h) = limit"
    using assms(2) by (simp add: generateMockHistory_eq)
  have srt: "sorted_wrt (\<ge>) (map tx_timestamp ?h)"
    by (simp only: generateMockHistory_eq descending_sort)
  have el: "tx_flagged t = (tx_fraudProbability t > 0.5)
        \<and> tx_riskLevel t = getRiskLevel (tx_fraudProbability t)
        \<and> (\<exists>i. int i < limit
               \<and> nowAt (2 * i + 1) - 7 * 24 * 60 * 60 * 1000 \<le> tx_timestamp t
               \<and> tx_timestamp t \<le> nowAt (2 * i + 1))"
    if "t \<in> set ?h" for t
  proof -
    from that obtain i where i: "i < nat limit" and t: "t = mockTransaction random nowAt i"
      by (auto simp: generateMockHistory_eq)
    have d: "0 \<le> random (4 * i + 1)" "random (4 * i + 1) < 1"
      using assms(3) by simp_all
    have ts: "tx_timestamp t
        = timeClip (real_of_int (nowAt (2 * i + 1)) - random (4 * i + 1) * WEEK_MS)"
      by (simp add: t mockTransaction_def Let_def)
    have "nowAt (2 * i + 1) - 604800000 \<le> tx_timestamp t"
      and "tx_timestamp t \<le> nowAt (2 * i + 1)"
      using timeClip_trailing_week [OF d, of "nowAt (2 * i + 1)"] by (simp_all only: ts)
    moreover have "int i < limit" using i by simp
    ultimately have "\<exists>i. int i < limit
               \<and> nowAt (2 * i + 1) - 7 * 24 * 60 * 60 * 1000 \<le> tx_timestamp t
               \<and> tx_timestamp t \<le> nowAt (2 * i + 1)"
      by (intro exI [of _ i]) simp
    then show ?thesis
      by (simp add: t mockTransaction_def Let_def)
  qed
  from r len srt el show ?thesis by blast
qed

lemma example_history_timestamps:
  "map tx_timestamp (generateMockHistory exampleDraws exampleClock 2)
   = [1699848800000, 1699546400000]"
proof -
  have "[0..<nat 2] = [0, Suc 0]"
    by (simp add: numeral_2_eq_2)
  then show ?thesis
    by (simp add: generateMockHistory_eq mockTransaction_def Let_def exampleDraws_def
        exampleClock_def timeClip_def WEEK_MS_def)
qed

theorem getTransactionHistory_fallback_witness:
  "\<exists>history. getTransactionHistory exampleDraws exampleClock networkDown 2
              = Inr (Local history)
     \<and> length history = 2
     \<and> map tx_timestamp history = [1699848800000, 1699546400000]
     \<and> sorted_wrt (\<ge>) (map tx_timestamp history)"
proof -
  have h1: "fetchFails networkDown"
    by (simp add: fetchFails_def networkDown_def)
  have h2: "(0::int) \<le> 2" by simp
  have h3: "\<forall>k. 0 \<le> exampleDraws k \<and> exampleDraws k < 1"
    by (simp add: exampleDraws_def)
  from getTransactionHistory_fallback [OF h1 h2 h3, of exampleClock]
  obtain history where
    r: "getTransactionHistory exampleDraws exampleClock networkDown 2 = Inr (Local history)"
    and l: "int (length history) = 2"
    and s: "sorted_wrt (\<ge>) (map tx_timestamp history)"
    by blast
  have "history = generateMockHistory exampleDraws exampleClock 2"
    using r tryFetch_fails [OF h1] by (auto simp: getTransactionHistory_def)
  with r l s show ?thesis
    by (simp add: example_history_timestamps)
qed

end
